theory Spec2Isabelle
  imports Complex_Main
begin

section \<open>Portfolio Synthetic Call Transformer: the data\<close>

text \<open>
  The embedding follows \<^verbatim>\<open>process_portfolio\<close> and \<^verbatim>\<open>load_sample_data\<close> of
  \<^verbatim>\<open>src/app.py\<close>. A pandas DataFrame is the list of its rows in index order.

  Numbers: the columns \<^verbatim>\<open>Position\<close> and \<^verbatim>\<open>Market price\<close> hold numbers and the column
  \<^verbatim>\<open>Strike\<close> holds a number or NaN (Python's \<^verbatim>\<open>None\<close> in a numeric column). Numbers
  are exact reals here, so the rounding of IEEE doubles is outside the model; a NaN
  strike is \<open>None\<close>. The instrument names are ASCII strings.

  The dictionaries the function appends to its lists are records with one field per key.
  The keys \<^verbatim>\<open>Type\<close>, \<^verbatim>\<open>Action\<close>, \<^verbatim>\<open>Source\<close> and \<^verbatim>\<open>Risk Type\<close> keep the source's string
  values. The string formatted from \<^verbatim>\<open>source\<close> and \<^verbatim>\<open>strike\<close> under the key
  \<^verbatim>\<open>Created From\<close> is kept as the pair of its two arguments.
\<close>

record position =
  Instrument :: string
  Position :: real
  Strike :: "real option"
  Market_price :: real

record synthetic_call =
  sc_Type :: string
  sc_Strike :: real
  sc_Position :: real
  sc_Value_per_Unit :: real
  sc_Total_Value :: real
  sc_Created_From :: "string \<times> real"

record log_step =
  Step :: nat
  Action :: string
  Source :: string
  Amount :: real
  Put_Strike :: real
  Put_Price :: real
  Synthetic_Value :: "real option"  \<comment> \<open>\<open>None\<close> is the source's \<^verbatim>\<open>'N/A'\<close>\<close>

record final_entry =
  fp_Type :: string
  fp_Strike :: "real option"
  fp_Position :: real
  fp_Value_per_Unit :: real
  fp_Total_Value :: real
  fp_Risk_Type :: string

text \<open>The local variables the allocation loops update.\<close>

record alloc_state =
  remaining_futures :: real
  remaining_cash :: real
  synthetic_calls :: "synthetic_call list"
  transformation_log :: "log_step list"

datatype error = No_underlying_price_found

definition load_sample_data :: "position list" where
  "load_sample_data =
    [\<lparr>Instrument = ''Futures'', Position = 100000, Strike = None, Market_price = 1191\<rparr>,
     \<lparr>Instrument = ''Cash'', Position = 200000, Strike = None, Market_price = 1190\<rparr>,
     \<lparr>Instrument = ''Puts'', Position = 5000, Strike = Some 1240, Market_price = 60\<rparr>,
     \<lparr>Instrument = ''Puts'', Position = 10000, Strike = Some 1230, Market_price = 65\<rparr>,
     \<lparr>Instrument = ''Puts'', Position = 100000, Strike = Some 1200, Market_price = 25\<rparr>,
     \<lparr>Instrument = ''Puts'', Position = 100000, Strike = Some 1150, Market_price = 8\<rparr>,
     \<lparr>Instrument = ''Puts'', Position = 100000, Strike = Some 1100, Market_price = 4\<rparr>,
     \<lparr>Instrument = ''Calls'', Position = 100000, Strike = Some 1200, Market_price = 12\<rparr>,
     \<lparr>Instrument = ''Calls'', Position = 11000, Strike = Some 1250, Market_price = 4\<rparr>,
     \<lparr>Instrument = ''Calls'', Position = 11000, Strike = Some 1150, Market_price = 62\<rparr>]"

section \<open>The string operations of line 79 and lines 84-85\<close>

text \<open>
  \<^verbatim>\<open>str.strip()\<close> removes leading and trailing whitespace; on ASCII that is the
  characters 9 to 13, 28 to 31 and the space. \<^verbatim>\<open>str.lower()\<close> maps A-Z to a-z.
  \<^verbatim>\<open>str.contains(pat, case=False)\<close> with a pattern of plain letters is a search for
  the pattern as a substring, letter case ignored.
\<close>

definition isspace :: "char \<Rightarrow> bool" where
  "isspace c = (let n = (of_char c :: nat) in (9 \<le> n \<and> n \<le> 13) \<or> (28 \<le> n \<and> n \<le> 32))"

definition strip :: "string \<Rightarrow> string" where
  "strip s = rev (dropWhile isspace (rev (dropWhile isspace s)))"

definition lower_char :: "char \<Rightarrow> char" where
  "lower_char c = (let n = (of_char c :: nat) in if 65 \<le> n \<and> n \<le> 90 then char_of (n + 32) else c)"

definition lower :: "string \<Rightarrow> string" where
  "lower s = map lower_char s"

fun startswith :: "string \<Rightarrow> string \<Rightarrow> bool" where
  "startswith s [] = True"
| "startswith [] (p # ps) = False"
| "startswith (c # cs) (p # ps) = (c = p \<and> startswith cs ps)"

fun find_sub :: "string \<Rightarrow> string \<Rightarrow> bool" where
  "find_sub [] pat = (pat = [])"
| "find_sub (c # cs) pat = (startswith (c # cs) pat \<or> find_sub cs pat)"

definition str_contains :: "string \<Rightarrow> string \<Rightarrow> bool" where
  "str_contains s pat = find_sub (lower s) (lower pat)"

section \<open>The DataFrame operations\<close>

text \<open>
  \<^verbatim>\<open>Series.unique()\<close> keeps the first occurrence of each value, in order of appearance;
  all NaN count as one value.
\<close>

fun unique :: "'a list \<Rightarrow> 'a list" where
  "unique [] = []"
| "unique (x # xs) = x # unique (filter (\<lambda>y. y \<noteq> x) xs)"

text \<open>
  \<^verbatim>\<open>sort_values('Strike', ascending=False)\<close>: the rows with a strike in descending order
  of strike, then the rows with a NaN strike (\<^verbatim>\<open>na_position='last'\<close>) in their input
  order. Rows of equal strike keep their input order, which is what the spec states for
  lots of one strike.
\<close>

definition strike_desc_key :: "position \<Rightarrow> real" where
  "strike_desc_key r = (case Strike r of Some k \<Rightarrow> - k | None \<Rightarrow> 0)"

definition sort_values_Strike_desc :: "position list \<Rightarrow> position list" where
  "sort_values_Strike_desc df =
     sort_key strike_desc_key (filter (\<lambda>r. Strike r \<noteq> None) df) @ filter (\<lambda>r. Strike r = None) df"

section \<open>process\_portfolio\<close>

text \<open>Line 79: the assignment writes the standardized names into the caller's frame.\<close>

definition standardize :: "position list \<Rightarrow> position list" where
  "standardize df = map (\<lambda>r. r\<lparr>Instrument := lower (strip (Instrument r))\<rparr>) df"

text \<open>Lines 82-85, on the standardized frame.\<close>

definition futures_of :: "position list \<Rightarrow> position list" where
  "futures_of df = filter (\<lambda>r. Instrument r = ''futures'') df"

definition cash_of :: "position list \<Rightarrow> position list" where
  "cash_of df = filter (\<lambda>r. Instrument r = ''cash'') df"

definition puts_of :: "position list \<Rightarrow> position list" where
  "puts_of df = filter (\<lambda>r. str_contains (Instrument r) ''put'') df"

definition calls_of :: "position list \<Rightarrow> position list" where
  "calls_of df = filter (\<lambda>r. str_contains (Instrument r) ''call'') df"

text \<open>Lines 88-94: \<open>None\<close> is the branch that reports the error and returns.\<close>

definition underlying_price_of :: "position list \<Rightarrow> real option" where
  "underlying_price_of df =
     (case futures_of df of
        f # _ \<Rightarrow> Some (Market_price f)
      | [] \<Rightarrow> (case cash_of df of
                 c # _ \<Rightarrow> Some (Market_price c)
               | [] \<Rightarrow> None))"

text \<open>Lines 97-98.\<close>

definition total_futures_of :: "position list \<Rightarrow> real" where
  "total_futures_of df = sum_list (map Position (futures_of df))"

definition total_cash_of :: "position list \<Rightarrow> real" where
  "total_cash_of df = sum_list (map Position (cash_of df))"

text \<open>Lines 122-156: one pass through the body of the \<^verbatim>\<open>while\<close> loop.\<close>

definition loop_body :: "real \<Rightarrow> real \<Rightarrow> real \<Rightarrow> real \<Rightarrow> alloc_state \<Rightarrow> real \<times> alloc_state" where
  "loop_body underlying_price strike put_market_price puts_to_process st =
     (let (process_amount, source, st1) =
            (if remaining_futures st > 0 then
               (let process_amount = min puts_to_process (remaining_futures st)
                in (process_amount, ''Futures'',
                    st\<lparr>remaining_futures := remaining_futures st - process_amount\<rparr>))
             else
               (let process_amount = min puts_to_process (remaining_cash st)
                in (process_amount, ''Cash'',
                    st\<lparr>remaining_cash := remaining_cash st - process_amount\<rparr>)));
          puts_to_process1 = puts_to_process - process_amount;
          synthetic_value = put_market_price + (underlying_price - strike)
      in (puts_to_process1,
          st1\<lparr>synthetic_calls := synthetic_calls st1 @
                 [\<lparr>sc_Type = ''Synthetic Call'', sc_Strike = strike, sc_Position = process_amount,
                   sc_Value_per_Unit = synthetic_value,
                   sc_Total_Value = process_amount * synthetic_value,
                   sc_Created_From = (source, strike)\<rparr>],
               transformation_log := transformation_log st1 @
                 [\<lparr>Step = length (transformation_log st1) + 1, Action = ''Create Synthetic Call'',
                   Source = source, Amount = process_amount, Put_Strike = strike,
                   Put_Price = put_market_price, Synthetic_Value = Some synthetic_value\<rparr>]\<rparr>))"

text \<open>Line 121: the loop condition.\<close>

definition loop_cond :: "real \<Rightarrow> alloc_state \<Rightarrow> bool" where
  "loop_cond puts_to_process st =
     (puts_to_process > 0 \<and> (remaining_futures st > 0 \<or> remaining_cash st > 0))"

function while_loop :: "real \<Rightarrow> real \<Rightarrow> real \<Rightarrow> real \<Rightarrow> alloc_state \<Rightarrow> real \<times> alloc_state" where
  "while_loop underlying_price strike put_market_price puts_to_process st =
     (if loop_cond puts_to_process st then
        (case loop_body underlying_price strike put_market_price puts_to_process st of
           (puts_to_process1, st1) \<Rightarrow>
             while_loop underlying_price strike put_market_price puts_to_process1 st1)
      else (puts_to_process, st))"
  by pat_completeness auto
termination
  by (relation "measure (\<lambda>(u, k, pr, p, st).
         (if p > 0 then 1 else 0) + (if remaining_futures st > 0 then 1 else 0)
           + (if remaining_cash st > 0 then 1 else 0))")
     (auto simp: loop_body_def loop_cond_def Let_def min_def split: if_splits)

text \<open>Lines 117-168: one put row of the current strike.\<close>

definition process_put_row :: "real \<Rightarrow> real \<Rightarrow> alloc_state \<Rightarrow> position \<Rightarrow> alloc_state" where
  "process_put_row underlying_price strike st put_row =
     (case while_loop underlying_price strike (Market_price put_row) (Position put_row) st of
        (puts_to_process, st1) \<Rightarrow>
          if puts_to_process > 0 then
            st1\<lparr>transformation_log := transformation_log st1 @
                  [\<lparr>Step = length (transformation_log st1) + 1, Action = ''Unmatched Puts'',
                    Source = ''Puts'', Amount = puts_to_process, Put_Strike = strike,
                    Put_Price = Market_price put_row, Synthetic_Value = None\<rparr>]\<rparr>
          else st1)"

text \<open>Lines 111-168: one value of \<^verbatim>\<open>puts_sorted['Strike'].unique()\<close>.\<close>

definition process_strike :: "real \<Rightarrow> position list \<Rightarrow> alloc_state \<Rightarrow> real option \<Rightarrow> alloc_state" where
  "process_strike underlying_price puts_sorted st strike_opt =
     (case strike_opt of
        None \<Rightarrow> st
      | Some strike \<Rightarrow>
          foldl (process_put_row underlying_price strike) st
            (filter (\<lambda>r. Strike r = Some strike) puts_sorted))"

text \<open>Lines 104-168.\<close>

definition allocate :: "real \<Rightarrow> position list \<Rightarrow> real \<Rightarrow> real \<Rightarrow> alloc_state" where
  "allocate underlying_price puts_sorted total_futures total_cash =
     foldl (process_strike underlying_price puts_sorted)
       \<lparr>remaining_futures = total_futures, remaining_cash = total_cash,
        synthetic_calls = [], transformation_log = []\<rparr>
       (unique (map Strike puts_sorted))"

text \<open>Lines 226-239: the rows the second walk over \<^verbatim>\<open>puts_sorted\<close> appends.\<close>

fun unmatched_walk :: "real \<Rightarrow> position list \<Rightarrow> final_entry list" where
  "unmatched_walk unmatched_puts [] = []"
| "unmatched_walk unmatched_puts (put_row # rest) =
     (if unmatched_puts \<le> 0 then []
      else (let position = min (Position put_row) unmatched_puts
            in if position > 0 then
                 \<lparr>fp_Type = ''Unmatched Put'', fp_Strike = Strike put_row, fp_Position = position,
                  fp_Value_per_Unit = Market_price put_row,
                  fp_Total_Value = position * Market_price put_row,
                  fp_Risk_Type = ''Put Protection''\<rparr>
                 # unmatched_walk (unmatched_puts - position) rest
               else unmatched_walk unmatched_puts rest))"

text \<open>Lines 171-239.\<close>

definition final_portfolio_of ::
  "position list \<Rightarrow> real \<Rightarrow> alloc_state \<Rightarrow> final_entry list" where
  "final_portfolio_of df underlying_price st =
     (if remaining_futures st > 0 then
        [\<lparr>fp_Type = ''Futures'', fp_Strike = None, fp_Position = remaining_futures st,
          fp_Value_per_Unit = underlying_price,
          fp_Total_Value = remaining_futures st * underlying_price,
          fp_Risk_Type = ''Long Stock''\<rparr>]
      else [])
     @ (if remaining_cash st > 0 then
        [\<lparr>fp_Type = ''Cash'', fp_Strike = None, fp_Position = remaining_cash st,
          fp_Value_per_Unit = underlying_price,
          fp_Total_Value = remaining_cash st * underlying_price,
          fp_Risk_Type = ''Long Stock''\<rparr>]
      else [])
     @ map (\<lambda>sc. \<lparr>fp_Type = sc_Type sc, fp_Strike = Some (sc_Strike sc),
                   fp_Position = sc_Position sc, fp_Value_per_Unit = sc_Value_per_Unit sc,
                   fp_Total_Value = sc_Total_Value sc, fp_Risk_Type = ''Call-like''\<rparr>)
           (synthetic_calls st)
     @ map (\<lambda>call_row. \<lparr>fp_Type = ''Original Call'', fp_Strike = Strike call_row,
                   fp_Position = Position call_row, fp_Value_per_Unit = Market_price call_row,
                   fp_Total_Value = Position call_row * Market_price call_row,
                   fp_Risk_Type = ''Call-like''\<rparr>)
           (calls_of df)
     @ (let total_puts = sum_list (map Position (puts_of df));
            matched_puts = total_futures_of df + total_cash_of df
                             - remaining_futures st - remaining_cash st;
            unmatched_puts = total_puts - matched_puts
        in if unmatched_puts > 0
           then unmatched_walk unmatched_puts (sort_values_Strike_desc (puts_of df))
           else [])"

text \<open>The state after the allocation loops, for a standardized frame.\<close>

definition allocation :: "position list \<Rightarrow> real \<Rightarrow> alloc_state" where
  "allocation df underlying_price =
     allocate underlying_price (sort_values_Strike_desc (puts_of df))
       (total_futures_of df) (total_cash_of df)"

text \<open>
  The whole function. The first component of the result is the caller's frame after the
  call (line 79 assigns into it); the second is what the call returns, \<open>Inl\<close> standing
  for the branch of lines 93-94 that reports the error and returns no result.
\<close>

definition process_portfolio ::
  "position list \<Rightarrow> position list \<times> (error + final_entry list \<times> log_step list \<times> real)" where
  "process_portfolio df0 =
     (let df = standardize df0
      in (df,
          case underlying_price_of df of
            None \<Rightarrow> Inl No_underlying_price_found
          | Some underlying_price \<Rightarrow>
              (let st = allocation df underlying_price
               in Inr (final_portfolio_of df underlying_price st,
                       transformation_log st, underlying_price))))"


section \<open>Notions used to state the properties\<close>

text \<open>The steps of a log whose action is the creation of a synthetic call.\<close>

definition create_steps :: "log_step list \<Rightarrow> log_step list" where
  "create_steps steps = filter (\<lambda>s. Action s = ''Create Synthetic Call'') steps"

text \<open>\<open>n\<close> passes through the body of the \<^verbatim>\<open>while\<close> loop, from the quantity and state given.\<close>

definition body_iter :: "real \<Rightarrow> real \<Rightarrow> real \<Rightarrow> nat \<Rightarrow> real \<times> alloc_state \<Rightarrow> real \<times> alloc_state" where
  "body_iter u k pr n = (\<lambda>(p, st). loop_body u k pr p st) ^^ n"

text \<open>The steps the log of \<open>st1\<close> holds beyond those of the earlier state \<open>st\<close>.\<close>

definition appended :: "alloc_state \<Rightarrow> alloc_state \<Rightarrow> log_step list" where
  "appended st st1 = drop (length (transformation_log st)) (transformation_log st1)"

text \<open>
  A synthetic call lot and the log step written with it: the lot carries the step's strike
  and amount, its value per unit is put price plus (underlying price minus strike), and
  its total value is quantity times value per unit.
\<close>

definition lot_valued :: "real \<Rightarrow> synthetic_call \<Rightarrow> log_step \<Rightarrow> bool" where
  "lot_valued u sc s =
     (sc_Strike sc = Put_Strike s \<and> sc_Position sc = Amount s
      \<and> sc_Value_per_Unit sc = Put_Price s + (u - Put_Strike s)
      \<and> sc_Total_Value sc = sc_Position sc * sc_Value_per_Unit sc
      \<and> Synthetic_Value s = Some (sc_Value_per_Unit sc))"

text \<open>The strike and the put price of a step are those of one of the put rows.\<close>

definition from_put_row :: "position list \<Rightarrow> log_step \<Rightarrow> bool" where
  "from_put_row puts s =
     list_ex (\<lambda>r. Strike r = Some (Put_Strike s) \<and> Market_price r = Put_Price s) puts"

text \<open>The row of the final portfolio made from a lot (lines 195-203).\<close>

definition synthetic_row :: "synthetic_call \<Rightarrow> final_entry" where
  "synthetic_row sc = \<lparr>fp_Type = ''Synthetic Call'', fp_Strike = Some (sc_Strike sc),
      fp_Position = sc_Position sc, fp_Value_per_Unit = sc_Value_per_Unit sc,
      fp_Total_Value = sc_Total_Value sc, fp_Risk_Type = ''Call-like''\<rparr>"

text \<open>A row of the caller's frame whose standardized instrument name is \<open>name\<close>.\<close>

definition is_instrument :: "string \<Rightarrow> position \<Rightarrow> bool" where
  "is_instrument name r = (lower (strip (Instrument r)) = name)"

text \<open>
  The futures balance at each step of a log. \<open>remaining_futures\<close> starts at
  \<open>total_futures\<close> and changes only where a step with source \<^verbatim>\<open>Futures\<close> subtracts its
  amount, so pairing each step with the total less the amounts of the \<^verbatim>\<open>Futures\<close> steps
  before it gives the value of \<open>remaining_futures\<close> at the moment the step is taken.
\<close>

fun with_futures_balance :: "real \<Rightarrow> log_step list \<Rightarrow> (real \<times> log_step) list" where
  "with_futures_balance b [] = []"
| "with_futures_balance b (s # steps) =
     (b, s) # with_futures_balance (if Source s = ''Futures'' then b - Amount s else b) steps"

definition futures_drawn :: "log_step list \<Rightarrow> real" where
  "futures_drawn steps = sum_list (map Amount (filter (\<lambda>s. Source s = ''Futures'') steps))"

definition cash_only_at_zero :: "real \<Rightarrow> log_step list \<Rightarrow> bool" where
  "cash_only_at_zero tf steps =
     list_all (\<lambda>(b, s). Source s = ''Cash'' \<longrightarrow> \<not> b > 0 \<and> (0 \<le> tf \<longrightarrow> b = 0))
       (with_futures_balance tf steps)"

text \<open>Two entries of a \<^verbatim>\<open>Strike\<close> column in descending order; a NaN is in order with everything.\<close>

definition strike_desc :: "real option \<Rightarrow> real option \<Rightarrow> bool" where
  "strike_desc a b = (case (a, b) of (Some x, Some y) \<Rightarrow> x \<ge> y | _ \<Rightarrow> True)"

definition log_strikes :: "alloc_state \<Rightarrow> real list" where
  "log_strikes st = map Put_Strike (transformation_log st)"

text \<open>The frame without its put rows of NaN strike.\<close>

definition without_nan_puts :: "position list \<Rightarrow> position list" where
  "without_nan_puts df0 =
     filter (\<lambda>r. \<not> (str_contains (lower (strip (Instrument r))) ''put'' \<and> Strike r = None)) df0"

text \<open>The rows of a final portfolio of the types \<^verbatim>\<open>Futures\<close>, \<^verbatim>\<open>Cash\<close> and \<^verbatim>\<open>Synthetic Call\<close>.\<close>

definition stock_and_synthetic_rows :: "final_entry list \<Rightarrow> final_entry list" where
  "stock_and_synthetic_rows fp =
     filter (\<lambda>e. fp_Type e = ''Futures'' \<or> fp_Type e = ''Cash'' \<or> fp_Type e = ''Synthetic Call'') fp"

text \<open>The final portfolio and the log of a returned result; both empty for the error.\<close>

definition portfolio_of_result ::
  "error + final_entry list \<times> log_step list \<times> real \<Rightarrow> final_entry list" where
  "portfolio_of_result res = (case res of Inl e \<Rightarrow> [] | Inr (fp, steps, u) \<Rightarrow> fp)"

definition log_of_result ::
  "error + final_entry list \<times> log_step list \<times> real \<Rightarrow> log_step list" where
  "log_of_result res = (case res of Inl e \<Rightarrow> [] | Inr (fp, steps, u) \<Rightarrow> steps)"

text \<open>The rows of a final portfolio of one type.\<close>

definition rows_of_type :: "string \<Rightarrow> final_entry list \<Rightarrow> final_entry list" where
  "rows_of_type ty fp = filter (\<lambda>e. fp_Type e = ty) fp"

text \<open>
  The quantity the log matches against the put lots of strike \<open>k\<close>, and the quantity the
  \<^verbatim>\<open>Unmatched Put\<close> rows of a final portfolio give to that strike.
\<close>

definition matched_at :: "real \<Rightarrow> log_step list \<Rightarrow> real" where
  "matched_at k steps = sum_list (map Amount (filter (\<lambda>s. Put_Strike s = k) (create_steps steps)))"

definition unmatched_at :: "real \<Rightarrow> final_entry list \<Rightarrow> real" where
  "unmatched_at k fp =
     sum_list (map fp_Position (filter (\<lambda>e. fp_Strike e = Some k) (rows_of_type ''Unmatched Put'' fp)))"

section \<open>Invariants of the allocation loops\<close>

declare while_loop.simps [simp del]

lemma while_loop_rule:
  assumes "I p st"
    and "\<And>p st. I p st \<Longrightarrow> loop_cond p st \<Longrightarrow>
           I (fst (loop_body u k pr p st)) (snd (loop_body u k pr p st))"
  shows "I (fst (while_loop u k pr p st)) (snd (while_loop u k pr p st))
         \<and> \<not> loop_cond (fst (while_loop u k pr p st)) (snd (while_loop u k pr p st))"
  using assms
proof (induction u k pr p st rule: while_loop.induct)
  case (1 u k pr p st)
  show ?case
  proof (cases "loop_cond p st")
    case True
    obtain p1 st1 where b: "loop_body u k pr p st = (p1, st1)"
      by (cases "loop_body u k pr p st")
    from "1.prems"(1) True "1.prems"(2)[of p st] b have "I p1 st1" by simp
    from "1.IH"[OF True b[symmetric] this "1.prems"(2)] have
      "I (fst (while_loop u k pr p1 st1)) (snd (while_loop u k pr p1 st1))
         \<and> \<not> loop_cond (fst (while_loop u k pr p1 st1)) (snd (while_loop u k pr p1 st1))" 
      by simp
    moreover have "while_loop u k pr p st = while_loop u k pr p1 st1"
      using True b by (subst while_loop.simps) simp
    ultimately show ?thesis by simp
  next
    case False
    then have "while_loop u k pr p st = (p, st)"
      by (subst while_loop.simps) simp
    with False "1.prems" show ?thesis by simp
  qed
qed

lemma process_put_row_rule:
  assumes "J st"
    and body: "\<And>p st. J st \<Longrightarrow> loop_cond p st \<Longrightarrow> J (snd (loop_body u k (Market_price r) p st))"
    and unm: "\<And>p st. J st \<Longrightarrow> p > 0 \<Longrightarrow> \<not> loop_cond p st \<Longrightarrow>
           J (st\<lparr>transformation_log := transformation_log st @
                  [\<lparr>Step = length (transformation_log st) + 1, Action = ''Unmatched Puts'',
                    Source = ''Puts'', Amount = p, Put_Strike = k,
                    Put_Price = Market_price r, Synthetic_Value = None\<rparr>]\<rparr>)"
  shows "J (process_put_row u k st r)"
proof -
  have w: "J (snd (while_loop u k (Market_price r) (Position r) st))
      \<and> \<not> loop_cond (fst (while_loop u k (Market_price r) (Position r) st))
                      (snd (while_loop u k (Market_price r) (Position r) st))"
    by (rule while_loop_rule[where I = "\<lambda>p st. J st"]) (use assms in auto)
  obtain p1 st1 where e: "while_loop u k (Market_price r) (Position r) st = (p1, st1)"
    by (cases "while_loop u k (Market_price r) (Position r) st")
  with w have "J st1" "\<not> loop_cond p1 st1" by simp_all
  then show ?thesis
    using e unm[of st1 p1] by (simp add: process_put_row_def)
qed

lemma foldl_rule:
  assumes "J st" and "\<And>st x. J st \<Longrightarrow> x \<in> set xs \<Longrightarrow> J (f st x)"
  shows "J (foldl f st xs)"
  using assms by (induction xs arbitrary: st) auto

lemma set_unique [simp]: "set (unique xs) = set xs"
  by (induction xs rule: unique.induct) auto

lemma allocate_rule:
  assumes init: "J \<lparr>remaining_futures = tf, remaining_cash = tc,
        synthetic_calls = [], transformation_log = []\<rparr>"
    and body: "\<And>r k p st. r \<in> set ps \<Longrightarrow> Strike r = Some k \<Longrightarrow> J st \<Longrightarrow> loop_cond p st
                 \<Longrightarrow> J (snd (loop_body u k (Market_price r) p st))"
    and unm: "\<And>r k p st. r \<in> set ps \<Longrightarrow> Strike r = Some k \<Longrightarrow> J st \<Longrightarrow> p > 0
                 \<Longrightarrow> \<not> loop_cond p st \<Longrightarrow>
           J (st\<lparr>transformation_log := transformation_log st @
                  [\<lparr>Step = length (transformation_log st) + 1, Action = ''Unmatched Puts'',
                    Source = ''Puts'', Amount = p, Put_Strike = k,
                    Put_Price = Market_price r, Synthetic_Value = None\<rparr>]\<rparr>)"
  shows "J (allocate u ps tf tc)"
  unfolding allocate_def
proof (rule foldl_rule[where J = J])
  show "J \<lparr>remaining_futures = tf, remaining_cash = tc,
        synthetic_calls = [], transformation_log = []\<rparr>" by (rule init)
next
  fix st ko assume J: "J st" and "ko \<in> set (unique (map Strike ps))"
  show "J (process_strike u ps st ko)"
  proof (cases ko)
    case None
    with J show ?thesis by (simp add: process_strike_def)
  next
    case (Some k)
    have "J (foldl (process_put_row u k) st (filter (\<lambda>r. Strike r = Some k) ps))"
    proof (rule foldl_rule[where J = J])
      show "J st" by (rule J)
    next
      fix st' r assume J': "J st'" and "r \<in> set (filter (\<lambda>r. Strike r = Some k) ps)"
      then have r: "r \<in> set ps" "Strike r = Some k" by auto
      show "J (process_put_row u k st' r)"
        by (rule process_put_row_rule[where J = J]) (use J' r body unm in auto)
    qed
    with Some show ?thesis by (simp add: process_strike_def)
  qed
qed


lemma loop_body_futures:
  "remaining_futures st > 0 \<Longrightarrow> loop_body u k pr p st =
     (p - min p (remaining_futures st),
      st\<lparr>remaining_futures := remaining_futures st - min p (remaining_futures st),
         synthetic_calls := synthetic_calls st @
           [\<lparr>sc_Type = ''Synthetic Call'', sc_Strike = k, sc_Position = min p (remaining_futures st),
             sc_Value_per_Unit = pr + (u - k),
             sc_Total_Value = min p (remaining_futures st) * (pr + (u - k)),
             sc_Created_From = (''Futures'', k)\<rparr>],
         transformation_log := transformation_log st @
           [\<lparr>Step = length (transformation_log st) + 1, Action = ''Create Synthetic Call'',
             Source = ''Futures'', Amount = min p (remaining_futures st), Put_Strike = k,
             Put_Price = pr, Synthetic_Value = Some (pr + (u - k))\<rparr>]\<rparr>)"
  by (simp add: loop_body_def Let_def)

lemma loop_body_cash:
  "\<not> remaining_futures st > 0 \<Longrightarrow> loop_body u k pr p st =
     (p - min p (remaining_cash st),
      st\<lparr>remaining_cash := remaining_cash st - min p (remaining_cash st),
         synthetic_calls := synthetic_calls st @
           [\<lparr>sc_Type = ''Synthetic Call'', sc_Strike = k, sc_Position = min p (remaining_cash st),
             sc_Value_per_Unit = pr + (u - k),
             sc_Total_Value = min p (remaining_cash st) * (pr + (u - k)),
             sc_Created_From = (''Cash'', k)\<rparr>],
         transformation_log := transformation_log st @
           [\<lparr>Step = length (transformation_log st) + 1, Action = ''Create Synthetic Call'',
             Source = ''Cash'', Amount = min p (remaining_cash st), Put_Strike = k,
             Put_Price = pr, Synthetic_Value = Some (pr + (u - k))\<rparr>]\<rparr>)"
  by (simp add: loop_body_def Let_def)

lemma allocate_conservation:
  "sum_list (map sc_Position (synthetic_calls (allocate u ps tf tc)))
      + remaining_futures (allocate u ps tf tc) + remaining_cash (allocate u ps tf tc) = tf + tc
   \<and> sum_list (map Amount (create_steps (transformation_log (allocate u ps tf tc))))
       = sum_list (map sc_Position (synthetic_calls (allocate u ps tf tc)))
   \<and> remaining_futures (allocate u ps tf tc) \<le> tf
   \<and> remaining_cash (allocate u ps tf tc) \<le> tc"
proof (rule allocate_rule[where J = "\<lambda>st.
     sum_list (map sc_Position (synthetic_calls st)) + remaining_futures st + remaining_cash st = tf + tc
   \<and> sum_list (map Amount (create_steps (transformation_log st)))
       = sum_list (map sc_Position (synthetic_calls st))
   \<and> remaining_futures st \<le> tf \<and> remaining_cash st \<le> tc"], goal_cases)
  case 1
  show ?case by (simp add: create_steps_def)
next
  case (2 r k p st)
  show ?case
  proof (cases "remaining_futures st > 0")
    case True
    with 2 show ?thesis
      by (simp add: loop_body_futures create_steps_def loop_cond_def min_def)
  next
    case False
    with 2 show ?thesis
      by (simp add: loop_body_cash create_steps_def loop_cond_def min_def)
  qed
next
  case (3 r k p st)
  then show ?case by (simp add: create_steps_def)
qed




lemma process_portfolio_Inr:
  "snd (process_portfolio df0) = Inr (fp, steps, u) \<longleftrightarrow>
     underlying_price_of (standardize df0) = Some u
     \<and> fp = final_portfolio_of (standardize df0) u (allocation (standardize df0) u)
     \<and> steps = transformation_log (allocation (standardize df0) u)"
  by (auto simp: process_portfolio_def Let_def split: option.splits)

lemma set_sort_values [simp]: "set (sort_values_Strike_desc ps) = set ps"
  by (auto simp: sort_values_Strike_desc_def)

lemma fst_process_portfolio: "fst (process_portfolio df0) = standardize df0"
  by (simp add: process_portfolio_def Let_def)

section \<open>The sample dataset\<close>

lemma sample_standardize:
  "standardize load_sample_data =
    [\<lparr>Instrument = ''futures'', Position = 100000, Strike = None, Market_price = 1191\<rparr>,
     \<lparr>Instrument = ''cash'', Position = 200000, Strike = None, Market_price = 1190\<rparr>,
     \<lparr>Instrument = ''puts'', Position = 5000, Strike = Some 1240, Market_price = 60\<rparr>,
     \<lparr>Instrument = ''puts'', Position = 10000, Strike = Some 1230, Market_price = 65\<rparr>,
     \<lparr>Instrument = ''puts'', Position = 100000, Strike = Some 1200, Market_price = 25\<rparr>,
     \<lparr>Instrument = ''puts'', Position = 100000, Strike = Some 1150, Market_price = 8\<rparr>,
     \<lparr>Instrument = ''puts'', Position = 100000, Strike = Some 1100, Market_price = 4\<rparr>,
     \<lparr>Instrument = ''calls'', Position = 100000, Strike = Some 1200, Market_price = 12\<rparr>,
     \<lparr>Instrument = ''calls'', Position = 11000, Strike = Some 1250, Market_price = 4\<rparr>,
     \<lparr>Instrument = ''calls'', Position = 11000, Strike = Some 1150, Market_price = 62\<rparr>]"
  by code_simp

lemma sample_totals:
  "total_futures_of (standardize load_sample_data) = 100000"
  "total_cash_of (standardize load_sample_data) = 200000"
  "underlying_price_of (standardize load_sample_data) = Some 1191"
  by code_simp+

lemma sample_allocation:
  "allocation (standardize load_sample_data) 1191 =
    \<lparr>remaining_futures = 0, remaining_cash = 0,
     synthetic_calls =
      [\<lparr>sc_Type = ''Synthetic Call'', sc_Strike = 1240, sc_Position = 5000,
        sc_Value_per_Unit = 11, sc_Total_Value = 55000, sc_Created_From = (''Futures'', 1240)\<rparr>,
       \<lparr>sc_Type = ''Synthetic Call'', sc_Strike = 1230, sc_Position = 10000,
        sc_Value_per_Unit = 26, sc_Total_Value = 260000, sc_Created_From = (''Futures'', 1230)\<rparr>,
       \<lparr>sc_Type = ''Synthetic Call'', sc_Strike = 1200, sc_Position = 85000,
        sc_Value_per_Unit = 16, sc_Total_Value = 1360000, sc_Created_From = (''Futures'', 1200)\<rparr>,
       \<lparr>sc_Type = ''Synthetic Call'', sc_Strike = 1200, sc_Position = 15000,
        sc_Value_per_Unit = 16, sc_Total_Value = 240000, sc_Created_From = (''Cash'', 1200)\<rparr>,
       \<lparr>sc_Type = ''Synthetic Call'', sc_Strike = 1150, sc_Position = 100000,
        sc_Value_per_Unit = 49, sc_Total_Value = 4900000, sc_Created_From = (''Cash'', 1150)\<rparr>,
       \<lparr>sc_Type = ''Synthetic Call'', sc_Strike = 1100, sc_Position = 85000,
        sc_Value_per_Unit = 95, sc_Total_Value = 8075000, sc_Created_From = (''Cash'', 1100)\<rparr>],
     transformation_log =
      [\<lparr>Step = 1, Action = ''Create Synthetic Call'', Source = ''Futures'', Amount = 5000,
        Put_Strike = 1240, Put_Price = 60, Synthetic_Value = Some 11\<rparr>,
       \<lparr>Step = 2, Action = ''Create Synthetic Call'', Source = ''Futures'', Amount = 10000,
        Put_Strike = 1230, Put_Price = 65, Synthetic_Value = Some 26\<rparr>,
       \<lparr>Step = 3, Action = ''Create Synthetic Call'', Source = ''Futures'', Amount = 85000,
        Put_Strike = 1200, Put_Price = 25, Synthetic_Value = Some 16\<rparr>,
       \<lparr>Step = 4, Action = ''Create Synthetic Call'', Source = ''Cash'', Amount = 15000,
        Put_Strike = 1200, Put_Price = 25, Synthetic_Value = Some 16\<rparr>,
       \<lparr>Step = 5, Action = ''Create Synthetic Call'', Source = ''Cash'', Amount = 100000,
        Put_Strike = 1150, Put_Price = 8, Synthetic_Value = Some 49\<rparr>,
       \<lparr>Step = 6, Action = ''Create Synthetic Call'', Source = ''Cash'', Amount = 85000,
        Put_Strike = 1100, Put_Price = 4, Synthetic_Value = Some 95\<rparr>,
       \<lparr>Step = 7, Action = ''Unmatched Puts'', Source = ''Puts'', Amount = 15000,
        Put_Strike = 1100, Put_Price = 4, Synthetic_Value = None\<rparr>]\<rparr>"
  by code_simp

lemma sample_final_portfolio:
  "final_portfolio_of (standardize load_sample_data) 1191
     (allocation (standardize load_sample_data) 1191) =
   [\<lparr>fp_Type = ''Synthetic Call'', fp_Strike = Some 1240, fp_Position = 5000,
     fp_Value_per_Unit = 11, fp_Total_Value = 55000, fp_Risk_Type = ''Call-like''\<rparr>,
    \<lparr>fp_Type = ''Synthetic Call'', fp_Strike = Some 1230, fp_Position = 10000,
     fp_Value_per_Unit = 26, fp_Total_Value = 260000, fp_Risk_Type = ''Call-like''\<rparr>,
    \<lparr>fp_Type = ''Synthetic Call'', fp_Strike = Some 1200, fp_Position = 85000,
     fp_Value_per_Unit = 16, fp_Total_Value = 1360000, fp_Risk_Type = ''Call-like''\<rparr>,
    \<lparr>fp_Type = ''Synthetic Call'', fp_Strike = Some 1200, fp_Position = 15000,
     fp_Value_per_Unit = 16, fp_Total_Value = 240000, fp_Risk_Type = ''Call-like''\<rparr>,
    \<lparr>fp_Type = ''Synthetic Call'', fp_Strike = Some 1150, fp_Position = 100000,
     fp_Value_per_Unit = 49, fp_Total_Value = 4900000, fp_Risk_Type = ''Call-like''\<rparr>,
    \<lparr>fp_Type = ''Synthetic Call'', fp_Strike = Some 1100, fp_Position = 85000,
     fp_Value_per_Unit = 95, fp_Total_Value = 8075000, fp_Risk_Type = ''Call-like''\<rparr>,
    \<lparr>fp_Type = ''Original Call'', fp_Strike = Some 1200, fp_Position = 100000,
     fp_Value_per_Unit = 12, fp_Total_Value = 1200000, fp_Risk_Type = ''Call-like''\<rparr>,
    \<lparr>fp_Type = ''Original Call'', fp_Strike = Some 1250, fp_Position = 11000,
     fp_Value_per_Unit = 4, fp_Total_Value = 44000, fp_Risk_Type = ''Call-like''\<rparr>,
    \<lparr>fp_Type = ''Original Call'', fp_Strike = Some 1150, fp_Position = 11000,
     fp_Value_per_Unit = 62, fp_Total_Value = 682000, fp_Risk_Type = ''Call-like''\<rparr>,
    \<lparr>fp_Type = ''Unmatched Put'', fp_Strike = Some 1240, fp_Position = 5000,
     fp_Value_per_Unit = 60, fp_Total_Value = 300000, fp_Risk_Type = ''Put Protection''\<rparr>,
    \<lparr>fp_Type = ''Unmatched Put'', fp_Strike = Some 1230, fp_Position = 10000,
     fp_Value_per_Unit = 65, fp_Total_Value = 650000, fp_Risk_Type = ''Put Protection''\<rparr>]"
  by code_simp

lemma sample_result:
  "snd (process_portfolio load_sample_data) =
     Inr (final_portfolio_of (standardize load_sample_data) 1191
            (allocation (standardize load_sample_data) 1191),
          transformation_log (allocation (standardize load_sample_data) 1191), 1191)"
  by (simp add: process_portfolio_def Let_def sample_totals)


lemma sample_portfolio:
  "portfolio_of_result (snd (process_portfolio load_sample_data))
     = final_portfolio_of (standardize load_sample_data) 1191
         (allocation (standardize load_sample_data) 1191)"
  by (simp add: sample_result portfolio_of_result_def)

lemma sample_log:
  "log_of_result (snd (process_portfolio load_sample_data))
     = transformation_log (allocation (standardize load_sample_data) 1191)"
  by (simp add: sample_result log_of_result_def)

section \<open>The properties\<close>

text \<open>
  C1 (stock-side conservation). For every input frame and underlying price, after the
  allocation loops the quantities of the synthetic calls plus \<open>remaining_futures\<close> plus
  \<open>remaining_cash\<close> equal \<open>total_futures + total_cash\<close>; the amount drawn from the two
  balances is the sum of the amounts of the creation steps of the log; and neither
  balance exceeds its original total.
\<close>

theorem stock_side_conservation:
  "(let df = standardize df0; st = allocation df u
    in sum_list (map sc_Position (synthetic_calls st)) + remaining_futures st + remaining_cash st
         = total_futures_of df + total_cash_of df
     \<and> total_futures_of df + total_cash_of df - (remaining_futures st + remaining_cash st)
         = sum_list (map Amount (create_steps (transformation_log st)))
     \<and> remaining_futures st \<le> total_futures_of df
     \<and> remaining_cash st \<le> total_cash_of df)"
  using allocate_conservation[of u "sort_values_Strike_desc (puts_of (standardize df0))"
      "total_futures_of (standardize df0)" "total_cash_of (standardize df0)"]
  by (simp add: Let_def allocation_def)


theorem stock_side_conservation_witness:
  "sum_list (map sc_Position (synthetic_calls (allocation (standardize load_sample_data) 1191)))
     = 300000
   \<and> remaining_futures (allocation (standardize load_sample_data) 1191) = 0
   \<and> remaining_cash (allocation (standardize load_sample_data) 1191) = 0
   \<and> total_futures_of (standardize load_sample_data)
       + total_cash_of (standardize load_sample_data) = 300000
   \<and> sum_list (map Amount (create_steps
         (transformation_log (allocation (standardize load_sample_data) 1191)))) = 300000"
  using stock_side_conservation[of load_sample_data 1191]
  by (simp add: Let_def sample_totals sample_allocation)


subsection \<open>C2: the sample dataset\<close>

text \<open>
  C2, as the code has it. On the sample dataset the final portfolio has no \<^verbatim>\<open>Futures\<close>
  and no \<^verbatim>\<open>Cash\<close> row, six \<^verbatim>\<open>Synthetic Call\<close> rows, three \<^verbatim>\<open>Original Call\<close> rows that
  carry the strike, position and price of the three input calls, and \<^verbatim>\<open>Unmatched Put\<close>
  rows whose quantities add up to 15000; the log has one \<^verbatim>\<open>Unmatched Puts\<close> step, for
  15000 at strike 1100.
\<close>

theorem sample_scenario:
  "rows_of_type ''Futures'' (portfolio_of_result (snd (process_portfolio load_sample_data))) = []
   \<and> rows_of_type ''Cash'' (portfolio_of_result (snd (process_portfolio load_sample_data))) = []
   \<and> length (rows_of_type ''Synthetic Call''
        (portfolio_of_result (snd (process_portfolio load_sample_data)))) = 6
   \<and> rows_of_type ''Original Call'' (portfolio_of_result (snd (process_portfolio load_sample_data)))
      = [\<lparr>fp_Type = ''Original Call'', fp_Strike = Some 1200, fp_Position = 100000,
          fp_Value_per_Unit = 12, fp_Total_Value = 1200000, fp_Risk_Type = ''Call-like''\<rparr>,
         \<lparr>fp_Type = ''Original Call'', fp_Strike = Some 1250, fp_Position = 11000,
          fp_Value_per_Unit = 4, fp_Total_Value = 44000, fp_Risk_Type = ''Call-like''\<rparr>,
         \<lparr>fp_Type = ''Original Call'', fp_Strike = Some 1150, fp_Position = 11000,
          fp_Value_per_Unit = 62, fp_Total_Value = 682000, fp_Risk_Type = ''Call-like''\<rparr>]
   \<and> sum_list (map fp_Position (rows_of_type ''Unmatched Put''
        (portfolio_of_result (snd (process_portfolio load_sample_data))))) = 15000
   \<and> filter (\<lambda>s. Action s = ''Unmatched Puts'')
        (log_of_result (snd (process_portfolio load_sample_data)))
      = [\<lparr>Step = 7, Action = ''Unmatched Puts'', Source = ''Puts'', Amount = 15000,
          Put_Strike = 1100, Put_Price = 4, Synthetic_Value = None\<rparr>]"
  unfolding sample_portfolio sample_log
  unfolding sample_final_portfolio
  by (simp add: sample_allocation rows_of_type_def)

text \<open>
  The claim as stated fails on the sample dataset: the final portfolio has three
  \<^verbatim>\<open>Original Call\<close> rows, not two, and two \<^verbatim>\<open>Unmatched Put\<close> rows, of 5000 at strike 1240
  and of 10000 at strike 1230, not one row of 15000 at strike 1100.
\<close>

theorem sample_scenario_counterexample:
  "length (rows_of_type ''Original Call''
      (portfolio_of_result (snd (process_portfolio load_sample_data)))) = 3
   \<and> length (rows_of_type ''Original Call''
      (portfolio_of_result (snd (process_portfolio load_sample_data)))) \<noteq> 2
   \<and> rows_of_type ''Unmatched Put'' (portfolio_of_result (snd (process_portfolio load_sample_data)))
      = [\<lparr>fp_Type = ''Unmatched Put'', fp_Strike = Some 1240, fp_Position = 5000,
          fp_Value_per_Unit = 60, fp_Total_Value = 300000, fp_Risk_Type = ''Put Protection''\<rparr>,
         \<lparr>fp_Type = ''Unmatched Put'', fp_Strike = Some 1230, fp_Position = 10000,
          fp_Value_per_Unit = 65, fp_Total_Value = 650000, fp_Risk_Type = ''Put Protection''\<rparr>]
   \<and> length (rows_of_type ''Unmatched Put''
      (portfolio_of_result (snd (process_portfolio load_sample_data)))) \<noteq> 1"
  unfolding sample_portfolio
  unfolding sample_final_portfolio
  by (simp add: rows_of_type_def)

subsection \<open>C3: conservation for each put lot\<close>

text \<open>
  C3 on the sample dataset, where every strike has one put lot. The lot at strike 1240
  has quantity 5000: the log matches 5000 of it, and the final portfolio reports another
  5000 of it as unmatched. The lot at strike 1100 has quantity 100000: the log matches
  85000 of it and records 15000 as unmatched, and the final portfolio reports nothing
  unmatched at that strike. So matched plus unmatched is 10000 for the first lot and
  85000 for the second.
\<close>

theorem put_lot_conservation_on_sample:
  "matched_at 1240 (log_of_result (snd (process_portfolio load_sample_data))) = 5000
   \<and> unmatched_at 1240 (portfolio_of_result (snd (process_portfolio load_sample_data))) = 5000
   \<and> matched_at 1100 (log_of_result (snd (process_portfolio load_sample_data))) = 85000
   \<and> unmatched_at 1100 (portfolio_of_result (snd (process_portfolio load_sample_data))) = 0
   \<and> map Amount (filter (\<lambda>s. Action s = ''Unmatched Puts'' \<and> Put_Strike s = 1100)
        (log_of_result (snd (process_portfolio load_sample_data)))) = [15000]"
  unfolding sample_portfolio sample_log
  unfolding sample_final_portfolio
  by (simp add: sample_allocation rows_of_type_def matched_at_def unmatched_at_def
        create_steps_def)

subsection \<open>C4: what a run changes\<close>

lemma isspace_lower_char [simp]: "isspace (lower_char c) = isspace c"
  by (auto simp: isspace_def lower_char_def Let_def)

lemma lower_char_idem [simp]: "lower_char (lower_char c) = lower_char c"
  by (auto simp: lower_char_def Let_def)

lemma lower_idem [simp]: "lower (lower s) = lower s"
  by (simp add: lower_def)

lemma dropWhile_isspace_lower:
  "dropWhile isspace (lower s) = lower (dropWhile isspace s)"
  by (simp add: lower_def dropWhile_map o_def)

lemma strip_lower: "strip (lower s) = lower (strip s)"
proof -
  have "rev (lower s) = lower (rev s)" for s by (simp add: lower_def rev_map)
  then show ?thesis
    by (simp add: strip_def dropWhile_isspace_lower)
qed

lemma strip_idem [simp]: "strip (strip s) = strip s"
proof -
  let ?t = "dropWhile isspace s"
  let ?w = "rev (dropWhile isspace (rev ?t))"
  have t: "?t = ?w @ rev (takeWhile isspace (rev ?t))"
    by (metis rev_append rev_rev_ident takeWhile_dropWhile_id)
  have "dropWhile isspace ?w = ?w"
  proof (cases "?w = []")
    case True
    then show ?thesis by (metis dropWhile.simps(1))
  next
    case False
    with t have "hd ?w = hd ?t" by (metis hd_append2)
    moreover from False have "?t \<noteq> []"
      by (metis dropWhile.simps(1) rev.simps(1))
    then have "\<not> isspace (hd ?t)" by (rule hd_dropWhile)
    ultimately show ?thesis using False by (simp add: dropWhile_eq_self_iff)
  qed
  then show ?thesis by (simp add: strip_def)
qed

lemma standardize_idem [simp]: "standardize (standardize df) = standardize df"
  by (simp add: standardize_def strip_lower o_def)

lemma snd_process_portfolio_standardize:
  "snd (process_portfolio (standardize df0)) = snd (process_portfolio df0)"
  by (simp add: process_portfolio_def Let_def)

text \<open>
  C4, as the code has it. A run overwrites the \<^verbatim>\<open>Instrument\<close> field of the caller's rows
  with the standardized name (stripped, lower case) and leaves \<^verbatim>\<open>Position\<close>, \<^verbatim>\<open>Strike\<close>
  and \<^verbatim>\<open>Market price\<close> as they were; what it returns is a function of the frame it is
  given; and a second run, on the frame the first one left, leaves that frame as it is
  and returns the same result.
\<close>

theorem run_standardizes_in_place:
  "fst (process_portfolio df0)
     = map (\<lambda>r. r\<lparr>Instrument := lower (strip (Instrument r))\<rparr>) df0
   \<and> map Position (fst (process_portfolio df0)) = map Position df0
   \<and> map Strike (fst (process_portfolio df0)) = map Strike df0
   \<and> map Market_price (fst (process_portfolio df0)) = map Market_price df0
   \<and> process_portfolio (fst (process_portfolio df0))
       = (fst (process_portfolio df0), snd (process_portfolio df0))"
proof -
  have "process_portfolio (standardize df0) = (standardize df0, snd (process_portfolio df0))"
    using fst_process_portfolio[of "standardize df0"]
      snd_process_portfolio_standardize[of df0]
    by (simp add: prod_eq_iff)
  then show ?thesis
    by (simp add: fst_process_portfolio) (simp add: standardize_def o_def)
qed

theorem run_standardizes_in_place_witness:
  "map Instrument (fst (process_portfolio load_sample_data))
     = [''futures'', ''cash'', ''puts'', ''puts'', ''puts'', ''puts'', ''puts'',
        ''calls'', ''calls'', ''calls'']
   \<and> map Position (fst (process_portfolio load_sample_data)) = map Position load_sample_data
   \<and> snd (process_portfolio (fst (process_portfolio load_sample_data)))
       = snd (process_portfolio load_sample_data)"
proof -
  note t = run_standardizes_in_place[of load_sample_data]
  from t have 1: "map Position (fst (process_portfolio load_sample_data))
      = map Position load_sample_data"
    by blast
  from t have "process_portfolio (fst (process_portfolio load_sample_data))
      = (fst (process_portfolio load_sample_data), snd (process_portfolio load_sample_data))"
    by blast
  then have 2: "snd (process_portfolio (fst (process_portfolio load_sample_data)))
      = snd (process_portfolio load_sample_data)"
    by simp
  have 3: "map Instrument (fst (process_portfolio load_sample_data))
     = [''futures'', ''cash'', ''puts'', ''puts'', ''puts'', ''puts'', ''puts'',
        ''calls'', ''calls'', ''calls'']"
    by (simp add: fst_process_portfolio sample_standardize)
  from 1 2 3 show ?thesis by blast
qed

text \<open>
  The claim as stated fails: after a run on the sample frame the caller's frame is not
  the frame that was passed in.
\<close>

theorem input_mutated_counterexample:
  "fst (process_portfolio load_sample_data) \<noteq> load_sample_data"
  by (simp add: fst_process_portfolio sample_standardize) (simp add: load_sample_data_def)


subsection \<open>C5: futures before cash\<close>

lemma with_futures_balance_snoc:
  "with_futures_balance b (steps @ [s]) =
     with_futures_balance b steps @ [(b - futures_drawn steps, s)]"
  by (induction steps arbitrary: b) (simp_all add: futures_drawn_def)

lemma futures_drawn_simps [simp]:
  "futures_drawn [] = 0"
  "futures_drawn (steps @ [s]) =
     futures_drawn steps + (if Source s = ''Futures'' then Amount s else 0)"
  by (simp_all add: futures_drawn_def)

lemma allocate_source_priority:
  "remaining_futures (allocate u ps tf tc) = tf - futures_drawn (transformation_log (allocate u ps tf tc))
   \<and> (0 \<le> tf \<longrightarrow> 0 \<le> remaining_futures (allocate u ps tf tc))
   \<and> cash_only_at_zero tf (transformation_log (allocate u ps tf tc))"
proof (rule allocate_rule[where J = "\<lambda>st.
     remaining_futures st = tf - futures_drawn (transformation_log st)
   \<and> (0 \<le> tf \<longrightarrow> 0 \<le> remaining_futures st)
   \<and> cash_only_at_zero tf (transformation_log st)"], goal_cases)
  case 1
  show ?case by (simp add: cash_only_at_zero_def)
next
  case (2 r k p st)
  show ?case
  proof (cases "remaining_futures st > 0")
    case True
    with 2 show ?thesis
      by (auto simp: loop_body_futures loop_cond_def cash_only_at_zero_def
            with_futures_balance_snoc min_def)
  next
    case False
    with 2 show ?thesis
      by (auto simp: loop_body_cash loop_cond_def cash_only_at_zero_def
            with_futures_balance_snoc)
  qed
next
  case (3 r k p st)
  then show ?case
    by (auto simp: cash_only_at_zero_def with_futures_balance_snoc)
qed

text \<open>
  C5 (source priority). A pass through the loop body writes a step with source \<^verbatim>\<open>Cash\<close>
  only from a state where \<open>remaining_futures > 0\<close> is false. Over a whole run,
  \<open>remaining_futures\<close> is \<open>total_futures\<close> less the amounts of the \<^verbatim>\<open>Futures\<close> steps of the
  log, and at every step of the log with source \<^verbatim>\<open>Cash\<close> the futures balance is not
  positive; when the total of the Futures quantities is not negative (as for every input
  with non-negative quantities), the balance is 0 there.
\<close>

theorem source_priority:
  "(Source (last (transformation_log (snd (loop_body u k pr p st)))) = ''Cash''
      \<longrightarrow> \<not> remaining_futures st > 0)
   \<and> remaining_futures (allocation df u)
       = total_futures_of df - futures_drawn (transformation_log (allocation df u))
   \<and> list_all (\<lambda>(b, s). Source s = ''Cash'' \<longrightarrow> \<not> b > 0 \<and> (0 \<le> total_futures_of df \<longrightarrow> b = 0))
       (with_futures_balance (total_futures_of df) (transformation_log (allocation df u)))"
proof -
  have "Source (last (transformation_log (snd (loop_body u k pr p st)))) = ''Cash''
      \<longrightarrow> \<not> remaining_futures st > 0"
    by (cases "remaining_futures st > 0") (simp_all add: loop_body_futures loop_body_cash)
  with allocate_source_priority[of u "sort_values_Strike_desc (puts_of df)"
         "total_futures_of df" "total_cash_of df"]
  show ?thesis
    by (simp add: allocation_def cash_only_at_zero_def)
qed

theorem source_priority_witness:
  "with_futures_balance (total_futures_of (standardize load_sample_data))
      (transformation_log (allocation (standardize load_sample_data) 1191))
    = zip [100000, 95000, 85000, 0, 0, 0, 0]
        (transformation_log (allocation (standardize load_sample_data) 1191))
   \<and> map Source (transformation_log (allocation (standardize load_sample_data) 1191))
    = [''Futures'', ''Futures'', ''Futures'', ''Cash'', ''Cash'', ''Cash'', ''Puts'']
   \<and> 0 \<le> total_futures_of (standardize load_sample_data)
   \<and> list_all (\<lambda>(b, s). Source s = ''Cash'' \<longrightarrow> \<not> b > 0 \<and> b = 0)
       (with_futures_balance (total_futures_of (standardize load_sample_data))
          (transformation_log (allocation (standardize load_sample_data) 1191)))"
  using source_priority[of 1191 1200 25 15000
      "\<lparr>remaining_futures = 0, remaining_cash = 200000, synthetic_calls = [],
        transformation_log = []\<rparr>" "standardize load_sample_data"]
  by (simp add: sample_allocation sample_totals)


subsection \<open>C6: the order of the strikes\<close>

lemma sorted_wrt_unique: "sorted_wrt P xs \<Longrightarrow> sorted_wrt P (unique xs)"
proof (induction xs rule: unique.induct)
  case 1
  show ?case by simp
next
  case (2 x xs)
  from "2.prems" have "sorted_wrt P (filter (\<lambda>y. y \<noteq> x) xs)"
    by (simp add: sorted_wrt_filter)
  with "2.IH" have "sorted_wrt P (unique (filter (\<lambda>y. y \<noteq> x) xs))" .
  with "2.prems" show ?case by auto
qed

lemma strikes_sorted_desc:
  "sorted_wrt strike_desc (map Strike (sort_values_Strike_desc ps))"
proof -
  let ?xs = "sort_key strike_desc_key (filter (\<lambda>r. Strike r \<noteq> None) ps)"
  have "sorted (map strike_desc_key ?xs)" by (rule sorted_sort_key)
  then have "sorted_wrt (\<lambda>a b. strike_desc_key a \<le> strike_desc_key b) ?xs"
    by (simp add: sorted_wrt_map)
  then have "sorted_wrt (\<lambda>a b. strike_desc (Strike a) (Strike b)) ?xs"
    by (rule sorted_wrt_mono_rel[rotated])
       (auto simp: strike_desc_def strike_desc_key_def split: option.splits)
  moreover have "sorted_wrt (\<lambda>a b. strike_desc (Strike a) (Strike b))
                   (filter (\<lambda>r. Strike r = None) ps)"
    by (rule sorted_wrt_mono_rel[of _ "\<lambda>a b. True"]) (auto simp: strike_desc_def)
  ultimately show ?thesis
    by (auto simp: sort_values_Strike_desc_def sorted_wrt_map sorted_wrt_append strike_desc_def)
qed

lemma process_strike_appends:
  "\<exists>new. transformation_log (process_strike u ps st (Some k)) = transformation_log st @ new
         \<and> (\<forall>s\<in>set new. Put_Strike s = k)"
proof -
  let ?J = "\<lambda>st' :: alloc_state. \<exists>new. transformation_log st' = transformation_log st @ new
         \<and> (\<forall>s\<in>set new. Put_Strike s = k)"
  have "?J (foldl (process_put_row u k) st (filter (\<lambda>r. Strike r = Some k) ps))"
  proof (rule foldl_rule[where J = ?J])
    show "?J st" by simp
  next
    fix st' r assume J: "?J st'"
    show "?J (process_put_row u k st' r)"
    proof (rule process_put_row_rule[where J = ?J], goal_cases)
      case 1 show ?case by (rule J)
    next
      case (2 p st2)
      then show ?case
        by (cases "remaining_futures st2 > 0") (auto simp: loop_body_futures loop_body_cash)
    next
      case (3 p st2)
      then show ?case by auto
    qed
  qed
  then show ?thesis by (simp add: process_strike_def)
qed

lemma foldl_process_strike_sorted:
  assumes "sorted_wrt (\<ge>) (log_strikes st)"
    and "\<forall>x\<in>set (log_strikes st). \<forall>k. Some k \<in> set ks \<longrightarrow> x \<ge> k"
    and "sorted_wrt strike_desc ks"
  shows "sorted_wrt (\<ge>) (log_strikes (foldl (process_strike u ps) st ks))"
  using assms
proof (induction ks arbitrary: st)
  case Nil
  then show ?case by simp
next
  case (Cons ko ks)
  show ?case
  proof (cases ko)
    case None
    then have "process_strike u ps st ko = st" by (simp add: process_strike_def)
    with Cons show ?thesis by simp
  next
    case (Some k)
    obtain new where new: "transformation_log (process_strike u ps st (Some k))
        = transformation_log st @ new" "\<forall>s\<in>set new. Put_Strike s = k"
      using process_strike_appends[of u ps st k] by blast
    let ?st1 = "process_strike u ps st (Some k)"
    have ls: "log_strikes ?st1 = log_strikes st @ map Put_Strike new"
      by (simp add: log_strikes_def new)
    have nk: "\<forall>y\<in>set (map Put_Strike new). y = k" using new(2) by auto
    have "sorted_wrt (\<ge>) (map Put_Strike new)"
      using nk by (induction new) auto
    with Cons.prems(1,2) nk Some have s1: "sorted_wrt (\<ge>) (log_strikes ?st1)"
      by (auto simp: ls sorted_wrt_append)
    have s2: "\<forall>x\<in>set (log_strikes ?st1). \<forall>k'. Some k' \<in> set ks \<longrightarrow> x \<ge> k'"
      using Cons.prems(2,3) nk Some by (auto simp: ls strike_desc_def)
    from Cons.prems(3) have s3: "sorted_wrt strike_desc ks" by simp
    from Cons.IH[OF s1 s2 s3] Some show ?thesis by simp
  qed
qed

lemma allocation_strike_order:
  "sorted_wrt (\<ge>) (map Put_Strike (transformation_log (allocation df u)))"
proof -
  let ?ps = "sort_values_Strike_desc (puts_of df)"
  have "sorted_wrt strike_desc (unique (map Strike ?ps))"
    by (rule sorted_wrt_unique) (rule strikes_sorted_desc)
  then have "sorted_wrt (\<ge>) (log_strikes (allocation df u))"
    unfolding allocation_def allocate_def
    by (intro foldl_process_strike_sorted) (simp_all add: log_strikes_def)
  then show ?thesis
    by (simp add: log_strikes_def)
qed

text \<open>
  C6 (strike order). In the log a run returns, the \<^verbatim>\<open>Put Strike\<close> values of the creation
  steps, in step order, never increase; equal strikes may repeat.
\<close>

theorem strike_order:
  assumes "snd (process_portfolio df0) = Inr (fp, steps, u)"
  shows "sorted_wrt (\<ge>) (map Put_Strike (create_steps steps))"
proof -
  from assms have "steps = transformation_log (allocation (standardize df0) u)"
    by (simp add: process_portfolio_Inr)
  with allocation_strike_order[of "standardize df0" u]
  have "sorted_wrt (\<ge>) (map Put_Strike steps)" by simp
  then show ?thesis
    by (simp add: create_steps_def sorted_wrt_map sorted_wrt_filter)
qed

theorem strike_order_witness:
  "map Put_Strike (create_steps
      (transformation_log (allocation (standardize load_sample_data) 1191)))
     = [1240, 1230, 1200, 1200, 1150, 1100]
   \<and> sorted_wrt (\<ge>) (map Put_Strike (create_steps
      (transformation_log (allocation (standardize load_sample_data) 1191))))"
  using strike_order[OF sample_result]
  by (simp add: sample_allocation create_steps_def)

subsection \<open>C7: the valuation formula\<close>

lemma allocate_valuation:
  "list_all2 (lot_valued u) (synthetic_calls (allocate u ps tf tc))
       (create_steps (transformation_log (allocate u ps tf tc)))
   \<and> list_all (from_put_row ps) (transformation_log (allocate u ps tf tc))
   \<and> list_all (\<lambda>sc. sc_Type sc = ''Synthetic Call'') (synthetic_calls (allocate u ps tf tc))"
proof (rule allocate_rule[where J = "\<lambda>st.
     list_all2 (lot_valued u) (synthetic_calls st) (create_steps (transformation_log st))
   \<and> list_all (from_put_row ps) (transformation_log st)
   \<and> list_all (\<lambda>sc. sc_Type sc = ''Synthetic Call'') (synthetic_calls st)"], goal_cases)
  case 1
  show ?case by (simp add: create_steps_def)
next
  case (2 r k p st)
  then have fr: "\<And>s. Put_Strike s = k \<Longrightarrow> Put_Price s = Market_price r \<Longrightarrow> from_put_row ps s"
    by (auto simp: from_put_row_def list_ex_iff)
  show ?case
  proof (cases "remaining_futures st > 0")
    case True
    with 2 fr show ?thesis
      by (simp add: loop_body_futures create_steps_def lot_valued_def list_all2_appendI)
  next
    case False
    with 2 fr show ?thesis
      by (simp add: loop_body_cash create_steps_def lot_valued_def list_all2_appendI)
  qed
next
  case (3 r k p st)
  then have fr: "\<And>s. Put_Strike s = k \<Longrightarrow> Put_Price s = Market_price r \<Longrightarrow> from_put_row ps s"
    by (auto simp: from_put_row_def list_ex_iff)
  with 3 show ?case by (simp add: create_steps_def)
qed

lemma unmatched_walk_rows:
  "list_all (\<lambda>e. fp_Total_Value e = fp_Position e * fp_Value_per_Unit e
                  \<and> fp_Type e = ''Unmatched Put'') (unmatched_walk n ps)"
  by (induction ps arbitrary: n) (simp_all add: Let_def)

lemma final_portfolio_totals:
  assumes "list_all (\<lambda>sc. sc_Total_Value sc = sc_Position sc * sc_Value_per_Unit sc)
             (synthetic_calls st)"
  shows "list_all (\<lambda>e. fp_Total_Value e = fp_Position e * fp_Value_per_Unit e)
           (final_portfolio_of df u st)"
proof -
  have "list_all (\<lambda>e. fp_Total_Value e = fp_Position e * fp_Value_per_Unit e) (unmatched_walk n ps)"
    for n ps
    using unmatched_walk_rows[of n ps] by (simp add: list_all_iff)
  with assms show ?thesis
    by (auto simp: final_portfolio_of_def Let_def list_all_iff)
qed


lemma unmatched_walk_no_synthetic:
  "filter (\<lambda>e. fp_Type e = ''Synthetic Call'') (unmatched_walk n ps) = []"
  using unmatched_walk_rows[of n ps] by (auto simp: list_all_iff filter_empty_conv)

lemma final_portfolio_synthetic_rows:
  assumes "list_all (\<lambda>sc. sc_Type sc = ''Synthetic Call'') (synthetic_calls st)"
  shows "filter (\<lambda>e. fp_Type e = ''Synthetic Call'') (final_portfolio_of df u st)
           = map synthetic_row (synthetic_calls st)"
proof -
  have "filter (\<lambda>e. fp_Type e = ''Synthetic Call'')
          (map (\<lambda>sc. \<lparr>fp_Type = sc_Type sc, fp_Strike = Some (sc_Strike sc),
                   fp_Position = sc_Position sc, fp_Value_per_Unit = sc_Value_per_Unit sc,
                   fp_Total_Value = sc_Total_Value sc, fp_Risk_Type = ''Call-like''\<rparr>) scs)
        = map synthetic_row scs"
    if "list_all (\<lambda>sc. sc_Type sc = ''Synthetic Call'') scs" for scs
    using that by (induction scs) (simp_all add: synthetic_row_def)
  with assms show ?thesis
    by (simp add: final_portfolio_of_def Let_def unmatched_walk_no_synthetic filter_map o_def)
qed

text \<open>
  C7 (valuation formula). When a run returns a final portfolio and a log: every synthetic
  call lot goes with one creation step of the log, its value per unit is that step's put
  price plus (underlying price minus strike), exactly, and its total value is its quantity
  times its value per unit; the put price and strike of each creation step are those of
  an input put row; the \<^verbatim>\<open>Synthetic Call\<close> rows of the final portfolio are the lots; and in
  every row of the final portfolio Total Value is Position times Value per Unit.
\<close>

theorem valuation_formula:
  assumes "snd (process_portfolio df0) = Inr (fp, steps, u)"
  shows "list_all2 (lot_valued u) (synthetic_calls (allocation (standardize df0) u))
           (create_steps steps)
       \<and> list_all (from_put_row (puts_of (standardize df0))) (create_steps steps)
       \<and> filter (\<lambda>e. fp_Type e = ''Synthetic Call'') fp
           = map synthetic_row (synthetic_calls (allocation (standardize df0) u))
       \<and> list_all (\<lambda>e. fp_Total_Value e = fp_Position e * fp_Value_per_Unit e) fp"
proof -
  let ?df = "standardize df0"
  let ?ps = "sort_values_Strike_desc (puts_of ?df)"
  let ?st = "allocation ?df u"
  from assms have fp: "fp = final_portfolio_of ?df u ?st"
    and steps: "steps = transformation_log ?st"
    by (simp_all add: process_portfolio_Inr)
  note a = allocate_valuation[of u ?ps "total_futures_of ?df" "total_cash_of ?df",
      folded allocation_def]
  from a have v: "list_all2 (lot_valued u) (synthetic_calls ?st) (create_steps steps)"
    by (simp add: steps)
  from a have "list_all (from_put_row ?ps) steps"
    by (simp add: steps)
  then have f: "list_all (from_put_row (puts_of ?df)) (create_steps steps)"
    by (auto simp: list_all_iff from_put_row_def list_ex_iff create_steps_def)
  from a have ty: "list_all (\<lambda>sc. sc_Type sc = ''Synthetic Call'') (synthetic_calls ?st)"
    by simp
  have "list_all (\<lambda>sc. sc_Total_Value sc = sc_Position sc * sc_Value_per_Unit sc)
          (synthetic_calls ?st)"
    using v by (auto simp: list_all_iff lot_valued_def in_set_conv_nth list_all2_conv_all_nth)
  then have t: "list_all (\<lambda>e. fp_Total_Value e = fp_Position e * fp_Value_per_Unit e) fp"
    unfolding fp by (rule final_portfolio_totals)
  from v f t final_portfolio_synthetic_rows[OF ty, of ?df u] show ?thesis
    by (simp add: fp)
qed

theorem valuation_formula_witness:
  "list_all2 (lot_valued 1191) (synthetic_calls (allocation (standardize load_sample_data) 1191))
     (create_steps (transformation_log (allocation (standardize load_sample_data) 1191)))
   \<and> map sc_Value_per_Unit (synthetic_calls (allocation (standardize load_sample_data) 1191))
       = [60 + (1191 - 1240), 65 + (1191 - 1230), 25 + (1191 - 1200), 25 + (1191 - 1200),
          8 + (1191 - 1150), 4 + (1191 - 1100)]
   \<and> list_all (\<lambda>e. fp_Total_Value e = fp_Position e * fp_Value_per_Unit e)
       (final_portfolio_of (standardize load_sample_data) 1191
          (allocation (standardize load_sample_data) 1191))"
  using valuation_formula[OF sample_result]
  by (simp add: sample_allocation)


subsection \<open>C8: the underlying price\<close>

lemma find_filter_conv:
  "List.find P xs = (case filter P xs of [] \<Rightarrow> None | x # _ \<Rightarrow> Some x)"
  by (induction xs) simp_all

lemma filter_standardize:
  "filter (\<lambda>r. Instrument r = name) (standardize df0)
     = standardize (filter (is_instrument name) df0)"
  by (induction df0) (simp_all add: standardize_def is_instrument_def)

lemma find_standardize:
  "map_option Market_price (List.find (is_instrument name) df0)
     = (case filter (\<lambda>r. Instrument r = name) (standardize df0) of
          [] \<Rightarrow> None | x # _ \<Rightarrow> Some (Market_price x))"
  by (induction df0) (simp_all add: standardize_def is_instrument_def)

text \<open>
  C8 (underlying price resolution). If the frame has a Futures row, the run returns with
  the market price of the first one in input order as underlying price; otherwise, if it
  has a Cash row, with the market price of the first one; otherwise it returns the error
  and nothing else: no final portfolio, no log, no price.
\<close>

theorem underlying_price_resolution:
  "snd (process_portfolio df0) =
     (case List.find (is_instrument ''futures'') df0 of
        Some f \<Rightarrow> Inr (final_portfolio_of (standardize df0) (Market_price f)
                          (allocation (standardize df0) (Market_price f)),
                        transformation_log (allocation (standardize df0) (Market_price f)),
                        Market_price f)
      | None \<Rightarrow>
         (case List.find (is_instrument ''cash'') df0 of
            Some c \<Rightarrow> Inr (final_portfolio_of (standardize df0) (Market_price c)
                          (allocation (standardize df0) (Market_price c)),
                        transformation_log (allocation (standardize df0) (Market_price c)),
                        Market_price c)
          | None \<Rightarrow> Inl No_underlying_price_found))"
proof -
  have "underlying_price_of (standardize df0) =
     (case List.find (is_instrument ''futures'') df0 of
        Some f \<Rightarrow> Some (Market_price f)
      | None \<Rightarrow> map_option Market_price (List.find (is_instrument ''cash'') df0))"
    using find_standardize[of "''futures''" df0] find_standardize[of "''cash''" df0]
    by (auto simp: underlying_price_of_def futures_of_def cash_of_def
             split: list.splits option.splits)
  then show ?thesis
    by (auto simp: process_portfolio_def Let_def split: option.splits)
qed


theorem underlying_price_resolution_witness:
  "(\<exists>fp steps. snd (process_portfolio load_sample_data) = Inr (fp, steps, 1191))
   \<and> (\<exists>fp steps. snd (process_portfolio
          [\<lparr>Instrument = ''Puts'', Position = 5, Strike = Some 90, Market_price = 3\<rparr>,
           \<lparr>Instrument = '' CASH '', Position = 10, Strike = None, Market_price = 101\<rparr>,
           \<lparr>Instrument = ''cash'', Position = 10, Strike = None, Market_price = 102\<rparr>])
        = Inr (fp, steps, 101))
   \<and> snd (process_portfolio
          [\<lparr>Instrument = ''Puts'', Position = 5, Strike = Some 90, Market_price = 3\<rparr>])
        = Inl No_underlying_price_found"
proof -
  have 1: "List.find (is_instrument ''futures'') load_sample_data
     = Some \<lparr>Instrument = ''Futures'', Position = 100000, Strike = None, Market_price = 1191\<rparr>"
    by code_simp
  have 2: "List.find (is_instrument ''futures'')
          [\<lparr>Instrument = ''Puts'', Position = 5, Strike = Some 90, Market_price = 3\<rparr>,
           \<lparr>Instrument = '' CASH '', Position = 10, Strike = None, Market_price = 101\<rparr>,
           \<lparr>Instrument = ''cash'', Position = 10, Strike = None, Market_price = 102\<rparr>] = None"
    by code_simp
  have 3: "List.find (is_instrument ''cash'')
          [\<lparr>Instrument = ''Puts'', Position = 5, Strike = Some 90, Market_price = 3\<rparr>,
           \<lparr>Instrument = '' CASH '', Position = 10, Strike = None, Market_price = 101\<rparr>,
           \<lparr>Instrument = ''cash'', Position = 10, Strike = None, Market_price = 102\<rparr>]
     = Some \<lparr>Instrument = '' CASH '', Position = 10, Strike = None, Market_price = 101\<rparr>"
    by code_simp
  have 4: "List.find (is_instrument ''futures'')
          [\<lparr>Instrument = ''Puts'', Position = 5, Strike = Some 90, Market_price = 3\<rparr>] = None"
    by code_simp
  have 5: "List.find (is_instrument ''cash'')
          [\<lparr>Instrument = ''Puts'', Position = 5, Strike = Some 90, Market_price = 3\<rparr>] = None"
    by code_simp
  show ?thesis
    using underlying_price_resolution[of load_sample_data]
      underlying_price_resolution[of
          "[\<lparr>Instrument = ''Puts'', Position = 5, Strike = Some 90, Market_price = 3\<rparr>,
           \<lparr>Instrument = '' CASH '', Position = 10, Strike = None, Market_price = 101\<rparr>,
           \<lparr>Instrument = ''cash'', Position = 10, Strike = None, Market_price = 102\<rparr>]"]
      underlying_price_resolution[of
          "[\<lparr>Instrument = ''Puts'', Position = 5, Strike = Some 90, Market_price = 3\<rparr>]"]
    by (simp only: 1 2 3 4 5 option.case position.select_convs) simp
qed

subsection \<open>C9: put rows with a NaN strike\<close>

lemma not_put_futures: "\<not> str_contains ''futures'' ''put''"
  by code_simp

lemma not_put_cash: "\<not> str_contains ''cash'' ''put''"
  by code_simp

lemma standardize_without_nan_puts:
  "standardize (without_nan_puts df0) =
     filter (\<lambda>r. \<not> (str_contains (Instrument r) ''put'' \<and> Strike r = None)) (standardize df0)"
  by (induction df0) (simp_all add: standardize_def without_nan_puts_def)


lemma filter_filter_imp:
  "(\<And>x. P x \<Longrightarrow> Q x) \<Longrightarrow> filter P (filter Q xs) = filter P xs"
  by (induction xs) auto

lemma futures_without_nan_puts:
  "futures_of (standardize (without_nan_puts df0)) = futures_of (standardize df0)"
  unfolding standardize_without_nan_puts futures_of_def
  by (rule filter_filter_imp) (simp add: not_put_futures)

lemma cash_without_nan_puts:
  "cash_of (standardize (without_nan_puts df0)) = cash_of (standardize df0)"
  unfolding standardize_without_nan_puts cash_of_def
  by (rule filter_filter_imp) (simp add: not_put_cash)

lemma filter_filter_not:
  "filter P (filter (\<lambda>r. \<not> (P r \<and> Q r)) xs) = filter (\<lambda>r. \<not> Q r) (filter P xs)"
  by (induction xs) auto

lemma puts_without_nan_puts:
  "puts_of (standardize (without_nan_puts df0))
     = filter (\<lambda>r. Strike r \<noteq> None) (puts_of (standardize df0))"
  unfolding standardize_without_nan_puts puts_of_def
  by (simp only: filter_filter_not)

lemma filter_unique: "filter P (unique xs) = unique (filter P xs)"
proof (induction xs rule: unique.induct)
  case 1
  show ?case by simp
next
  case (2 x xs)
  have c: "filter P (filter (\<lambda>y. y \<noteq> x) xs) = filter (\<lambda>y. y \<noteq> x) (filter P xs)"
    by (simp add: filter_filter conj_commute)
  show ?case
  proof (cases "P x")
    case True
    with 2 c show ?thesis by simp
  next
    case False
    then have "filter P (filter (\<lambda>y. y \<noteq> x) xs) = filter P xs"
      by (intro filter_filter_imp) auto
    with 2 False show ?thesis by simp
  qed
qed

lemma foldl_process_strike_skips_nan:
  "foldl (process_strike u ps) st ks
     = foldl (process_strike u ps) st (filter (\<lambda>k. k \<noteq> None) ks)"
  by (induction ks arbitrary: st) (simp_all add: process_strike_def)

lemma process_strike_ignores_nan_rows:
  assumes "\<forall>r\<in>set nans. Strike r = None"
  shows "process_strike u (rows @ nans) st (Some k) = process_strike u rows st (Some k)"
proof -
  from assms have "filter (\<lambda>r. Strike r = Some k) nans = []"
    by (auto simp: filter_empty_conv)
  then show ?thesis by (simp add: process_strike_def)
qed

lemma allocate_ignores_nan_rows:
  assumes s: "\<forall>r\<in>set rows. Strike r \<noteq> None" and n: "\<forall>r\<in>set nans. Strike r = None"
  shows "allocate u (rows @ nans) tf tc = allocate u rows tf tc"
proof -
  let ?st0 = "\<lparr>remaining_futures = tf, remaining_cash = tc,
        synthetic_calls = [], transformation_log = []\<rparr>"
  from s have 1: "filter (\<lambda>k. k \<noteq> None) (map Strike rows) = map Strike rows"
    by (simp add: filter_id_conv del: not_None_eq)
  from n have 2: "filter (\<lambda>k. k \<noteq> None) (map Strike nans) = []"
    by (simp add: filter_empty_conv del: not_None_eq)
  have "allocate u (rows @ nans) tf tc
      = foldl (process_strike u (rows @ nans)) ?st0
          (filter (\<lambda>k. k \<noteq> None) (unique (map Strike (rows @ nans))))"
    unfolding allocate_def by (rule foldl_process_strike_skips_nan)
  also have "filter (\<lambda>k. k \<noteq> None) (unique (map Strike (rows @ nans)))
      = unique (map Strike rows)"
    by (simp add: filter_unique 1 2 del: not_None_eq)
  also have "foldl (process_strike u (rows @ nans)) ?st0 (unique (map Strike rows))
      = foldl (process_strike u rows) ?st0 (unique (map Strike rows))"
  proof (rule foldl_cong[OF refl refl])
    fix a x assume "x \<in> set (unique (map Strike rows))"
    with s obtain k where "x = Some k" by auto
    with n show "process_strike u (rows @ nans) a x = process_strike u rows a x"
      by (simp add: process_strike_ignores_nan_rows)
  qed
  finally show ?thesis by (simp add: allocate_def)
qed

lemma allocation_without_nan_puts:
  "allocation (standardize (without_nan_puts df0)) u = allocation (standardize df0) u"
proof -
  let ?ps = "puts_of (standardize df0)"
  let ?rows = "sort_key strike_desc_key (filter (\<lambda>r. Strike r \<noteq> None) ?ps)"
  have "filter (\<lambda>r. Strike r = None) (filter (\<lambda>r. Strike r \<noteq> None) ?ps) = []"
    by (auto simp: filter_empty_conv)
  then have "sort_values_Strike_desc (filter (\<lambda>r. Strike r \<noteq> None) ?ps) = ?rows"
    by (simp add: sort_values_Strike_desc_def del: not_None_eq)
  moreover have "allocate u (?rows @ filter (\<lambda>r. Strike r = None) ?ps) tf tc
      = allocate u ?rows tf tc" for tf tc
    by (rule allocate_ignores_nan_rows) auto
  ultimately show ?thesis
    by (simp add: allocation_def puts_without_nan_puts total_futures_of_def total_cash_of_def
          futures_without_nan_puts cash_without_nan_puts sort_values_Strike_desc_def
          del: not_None_eq)
qed

lemma unmatched_walk_type:
  "list_all (\<lambda>e. fp_Type e = ''Unmatched Put'') (unmatched_walk n ps)"
  by (induction ps arbitrary: n) (simp_all add: Let_def)

lemma stock_and_synthetic_rows_final:
  "stock_and_synthetic_rows (final_portfolio_of df u st)
     = stock_and_synthetic_rows (final_portfolio_of df' u st)"
proof -
  have "stock_and_synthetic_rows (unmatched_walk n ps) = []" for n ps
    using unmatched_walk_type[of n ps]
    by (auto simp: stock_and_synthetic_rows_def filter_empty_conv list_all_iff)
  then show ?thesis
    by (simp add: final_portfolio_of_def stock_and_synthetic_rows_def Let_def filter_map o_def)
qed

text \<open>
  C9, as the code has it. Put rows with a NaN strike are never matched and never logged:
  a run on the frame without them returns the same error, or the same underlying price,
  the same log and the same \<^verbatim>\<open>Futures\<close>, \<^verbatim>\<open>Cash\<close> and \<^verbatim>\<open>Synthetic Call\<close> rows, and the
  state after the allocation loops (balances, lots, log) is the same. Their quantities
  are part of \<open>total_puts\<close> all the same, so the \<^verbatim>\<open>Unmatched Put\<close> rows can come from them.
\<close>

theorem nan_strike_puts_not_matched:
  "(case snd (process_portfolio df0) of
      Inl e \<Rightarrow> snd (process_portfolio (without_nan_puts df0)) = Inl e
    | Inr (fp, steps, u) \<Rightarrow>
        (case snd (process_portfolio (without_nan_puts df0)) of
           Inl e \<Rightarrow> False
         | Inr (fp1, steps1, u1) \<Rightarrow>
             u1 = u \<and> steps1 = steps
             \<and> stock_and_synthetic_rows fp1 = stock_and_synthetic_rows fp))
   \<and> allocation (standardize (without_nan_puts df0)) u = allocation (standardize df0) u"
proof -
  have "underlying_price_of (standardize (without_nan_puts df0))
      = underlying_price_of (standardize df0)"
    by (simp only: underlying_price_of_def futures_without_nan_puts cash_without_nan_puts)
  then show ?thesis
    using stock_and_synthetic_rows_final
    by (auto simp: process_portfolio_def Let_def allocation_without_nan_puts
        split: option.splits)
qed


lemma nan_put_results:
  "snd (process_portfolio
     [\<lparr>Instrument = ''Futures'', Position = 10, Strike = None, Market_price = 100\<rparr>,
      \<lparr>Instrument = ''Puts'', Position = 5, Strike = None, Market_price = 3\<rparr>])
   = Inr ([\<lparr>fp_Type = ''Futures'', fp_Strike = None, fp_Position = 10,
            fp_Value_per_Unit = 100, fp_Total_Value = 1000, fp_Risk_Type = ''Long Stock''\<rparr>,
           \<lparr>fp_Type = ''Unmatched Put'', fp_Strike = None, fp_Position = 5,
            fp_Value_per_Unit = 3, fp_Total_Value = 15, fp_Risk_Type = ''Put Protection''\<rparr>],
          [], 100)"
  "snd (process_portfolio
     [\<lparr>Instrument = ''Futures'', Position = 10, Strike = None, Market_price = 100\<rparr>])
   = Inr ([\<lparr>fp_Type = ''Futures'', fp_Strike = None, fp_Position = 10,
            fp_Value_per_Unit = 100, fp_Total_Value = 1000, fp_Risk_Type = ''Long Stock''\<rparr>],
          [], 100)"
  "without_nan_puts
     [\<lparr>Instrument = ''Futures'', Position = 10, Strike = None, Market_price = 100\<rparr>,
      \<lparr>Instrument = ''Puts'', Position = 5, Strike = None, Market_price = 3\<rparr>]
   = [\<lparr>Instrument = ''Futures'', Position = 10, Strike = None, Market_price = 100\<rparr>]"
  by code_simp+

theorem nan_strike_puts_not_matched_witness:
  "stock_and_synthetic_rows (portfolio_of_result (snd (process_portfolio
     [\<lparr>Instrument = ''Futures'', Position = 10, Strike = None, Market_price = 100\<rparr>,
      \<lparr>Instrument = ''Puts'', Position = 5, Strike = None, Market_price = 3\<rparr>])))
   = stock_and_synthetic_rows (portfolio_of_result (snd (process_portfolio
     [\<lparr>Instrument = ''Futures'', Position = 10, Strike = None, Market_price = 100\<rparr>])))
   \<and> log_of_result (snd (process_portfolio
     [\<lparr>Instrument = ''Futures'', Position = 10, Strike = None, Market_price = 100\<rparr>,
      \<lparr>Instrument = ''Puts'', Position = 5, Strike = None, Market_price = 3\<rparr>])) = []"
  using nan_strike_puts_not_matched[of
     "[\<lparr>Instrument = ''Futures'', Position = 10, Strike = None, Market_price = 100\<rparr>,
      \<lparr>Instrument = ''Puts'', Position = 5, Strike = None, Market_price = 3\<rparr>]" 100]
  by (simp add: nan_put_results portfolio_of_result_def log_of_result_def)

text \<open>
  The claim as stated fails: the put row with a NaN strike makes an \<^verbatim>\<open>Unmatched Put\<close> row
  of the final portfolio, which the run without it does not have.
\<close>

theorem nan_strike_put_counterexample:
  "rows_of_type ''Unmatched Put'' (portfolio_of_result (snd (process_portfolio
     [\<lparr>Instrument = ''Futures'', Position = 10, Strike = None, Market_price = 100\<rparr>,
      \<lparr>Instrument = ''Puts'', Position = 5, Strike = None, Market_price = 3\<rparr>])))
   = [\<lparr>fp_Type = ''Unmatched Put'', fp_Strike = None, fp_Position = 5,
       fp_Value_per_Unit = 3, fp_Total_Value = 15, fp_Risk_Type = ''Put Protection''\<rparr>]
   \<and> rows_of_type ''Unmatched Put'' (portfolio_of_result (snd (process_portfolio
     [\<lparr>Instrument = ''Futures'', Position = 10, Strike = None, Market_price = 100\<rparr>])))
   = []"
  by (simp add: nan_put_results portfolio_of_result_def rows_of_type_def)

subsection \<open>C10: the inner loop\<close>

lemma while_loop_stop: "\<not> loop_cond p st \<Longrightarrow> while_loop u k pr p st = (p, st)"
  by (subst while_loop.simps) simp

lemma while_loop_step:
  "loop_cond p st \<Longrightarrow> while_loop u k pr p st =
     while_loop u k pr (fst (loop_body u k pr p st)) (snd (loop_body u k pr p st))"
  by (subst while_loop.simps) (simp add: case_prod_beta)

lemma while_loop_cases:
  "(\<not> loop_cond p st \<and> while_loop u k pr p st = (p, st))
   \<or> (loop_cond p st \<and> \<not> loop_cond (fst (loop_body u k pr p st)) (snd (loop_body u k pr p st))
        \<and> while_loop u k pr p st = loop_body u k pr p st)
   \<or> (loop_cond p st \<and> remaining_futures st > 0
        \<and> loop_cond (fst (loop_body u k pr p st)) (snd (loop_body u k pr p st))
        \<and> \<not> remaining_futures (snd (loop_body u k pr p st)) > 0
        \<and> while_loop u k pr p st =
             loop_body u k pr (fst (loop_body u k pr p st)) (snd (loop_body u k pr p st))
        \<and> \<not> loop_cond (fst (while_loop u k pr p st)) (snd (while_loop u k pr p st)))"
proof (cases "loop_cond p st")
  case False
  then show ?thesis by (simp add: while_loop_stop)
next
  case c: True
  obtain p1 st1 where b: "loop_body u k pr p st = (p1, st1)"
    by (cases "loop_body u k pr p st")
  show ?thesis
  proof (cases "loop_cond p1 st1")
    case False
    with c b show ?thesis by (simp add: while_loop_step while_loop_stop)
  next
    case c1: True
    have f: "remaining_futures st > 0"
    proof (rule ccontr)
      assume n: "\<not> remaining_futures st > 0"
      with b c c1 show False
        by (auto simp: loop_body_cash loop_cond_def min_def split: if_splits)
    qed
    from f b c c1 have f1: "\<not> remaining_futures st1 > 0"
      by (auto simp: loop_body_futures loop_cond_def min_def split: if_splits)
    obtain p2 st2 where b2: "loop_body u k pr p1 st1 = (p2, st2)"
      by (cases "loop_body u k pr p1 st1")
    from f1 b2 c1 have c2: "\<not> loop_cond p2 st2"
      by (auto simp: loop_body_cash loop_cond_def min_def split: if_splits)
    have "while_loop u k pr p st = (p2, st2)"
      using c c1 c2 b b2 by (simp add: while_loop_step while_loop_stop)
    with c c1 c2 b b2 f f1 show ?thesis by simp
  qed
qed

lemma loop_body_appended:
  "transformation_log (snd (loop_body u k pr p st)) =
     transformation_log st @
       [\<lparr>Step = length (transformation_log st) + 1, Action = ''Create Synthetic Call'',
         Source = (if remaining_futures st > 0 then ''Futures'' else ''Cash''),
         Amount = p - fst (loop_body u k pr p st), Put_Strike = k,
         Put_Price = pr, Synthetic_Value = Some (pr + (u - k))\<rparr>]"
  by (cases "remaining_futures st > 0") (simp_all add: loop_body_futures loop_body_cash)

text \<open>
  C10. For every put lot the inner \<^verbatim>\<open>while\<close> loop terminates: \<open>while_loop\<close> is a total
  function (its termination is proved with its definition), its result is that of at most
  two passes through the loop body, and the loop condition is false there. The steps it
  appends to the log are creation steps, at most two, at most one with source
  \<^verbatim>\<open>Futures\<close> and at most one with source \<^verbatim>\<open>Cash\<close>.
\<close>

theorem inner_loop_at_most_two_steps:
  "(\<exists>n\<le>2. while_loop u k pr p st = body_iter u k pr n (p, st))
   \<and> \<not> loop_cond (fst (while_loop u k pr p st)) (snd (while_loop u k pr p st))
   \<and> (let new = appended st (snd (while_loop u k pr p st))
      in transformation_log (snd (while_loop u k pr p st)) = transformation_log st @ new
       \<and> list_all (\<lambda>s. Action s = ''Create Synthetic Call'') new
       \<and> length new \<le> 2
       \<and> length (filter (\<lambda>s. Source s = ''Futures'') new) \<le> 1
       \<and> length (filter (\<lambda>s. Source s = ''Cash'') new) \<le> 1)"
proof -
  let ?b1 = "loop_body u k pr p st"
  let ?b2 = "loop_body u k pr (fst ?b1) (snd ?b1)"
  consider (zero) "\<not> loop_cond p st" "while_loop u k pr p st = (p, st)"
    | (one) "loop_cond p st" "\<not> loop_cond (fst ?b1) (snd ?b1)" "while_loop u k pr p st = ?b1"
    | (two) "remaining_futures st > 0" "\<not> remaining_futures (snd ?b1) > 0"
        "while_loop u k pr p st = ?b2"
        "\<not> loop_cond (fst (while_loop u k pr p st)) (snd (while_loop u k pr p st))"
    using while_loop_cases[of p st u k pr] by blast
  then show ?thesis
  proof cases
    case zero
    have "while_loop u k pr p st = body_iter u k pr 0 (p, st)"
      using zero by (simp add: body_iter_def)
    then have "\<exists>n\<le>2. while_loop u k pr p st = body_iter u k pr n (p, st)"
      by (intro exI[of _ 0]) simp
    with zero show ?thesis by (simp add: appended_def Let_def)
  next
    case one
    have "while_loop u k pr p st = body_iter u k pr 1 (p, st)"
      using one by (simp add: body_iter_def)
    then have "\<exists>n\<le>2. while_loop u k pr p st = body_iter u k pr n (p, st)"
      by (intro exI[of _ 1]) simp
    with one show ?thesis
      by (simp add: appended_def Let_def loop_body_appended)
  next
    case two
    have "while_loop u k pr p st = body_iter u k pr 2 (p, st)"
      using two by (simp add: body_iter_def numeral_2_eq_2 case_prod_beta)
    then have "\<exists>n\<le>2. while_loop u k pr p st = body_iter u k pr n (p, st)"
      by (intro exI[of _ 2]) simp
    with two show ?thesis
      by (simp add: appended_def Let_def loop_body_appended)
  qed
qed


lemma sample_inner_loop:
  "while_loop 1191 1200 25 100000
     \<lparr>remaining_futures = 85000, remaining_cash = 200000, synthetic_calls = [],
      transformation_log = []\<rparr> =
   (0, \<lparr>remaining_futures = 0, remaining_cash = 185000,
     synthetic_calls =
      [\<lparr>sc_Type = ''Synthetic Call'', sc_Strike = 1200, sc_Position = 85000,
        sc_Value_per_Unit = 16, sc_Total_Value = 1360000, sc_Created_From = (''Futures'', 1200)\<rparr>,
       \<lparr>sc_Type = ''Synthetic Call'', sc_Strike = 1200, sc_Position = 15000,
        sc_Value_per_Unit = 16, sc_Total_Value = 240000, sc_Created_From = (''Cash'', 1200)\<rparr>],
     transformation_log =
      [\<lparr>Step = 1, Action = ''Create Synthetic Call'', Source = ''Futures'', Amount = 85000,
        Put_Strike = 1200, Put_Price = 25, Synthetic_Value = Some 16\<rparr>,
       \<lparr>Step = 2, Action = ''Create Synthetic Call'', Source = ''Cash'', Amount = 15000,
        Put_Strike = 1200, Put_Price = 25, Synthetic_Value = Some 16\<rparr>]\<rparr>)"
  by code_simp

theorem inner_loop_at_most_two_steps_witness:
  "(\<exists>n\<le>2. while_loop 1191 1200 25 100000
       \<lparr>remaining_futures = 85000, remaining_cash = 200000, synthetic_calls = [],
        transformation_log = []\<rparr>
     = body_iter 1191 1200 25 n
         (100000, \<lparr>remaining_futures = 85000, remaining_cash = 200000, synthetic_calls = [],
                   transformation_log = []\<rparr>))
   \<and> map Source (appended
         \<lparr>remaining_futures = 85000, remaining_cash = 200000, synthetic_calls = [],
          transformation_log = []\<rparr>
         (snd (while_loop 1191 1200 25 100000
           \<lparr>remaining_futures = 85000, remaining_cash = 200000, synthetic_calls = [],
            transformation_log = []\<rparr>))) = [''Futures'', ''Cash'']"
  using inner_loop_at_most_two_steps[of 1191 1200 25 100000
      "\<lparr>remaining_futures = 85000, remaining_cash = 200000, synthetic_calls = [],
        transformation_log = []\<rparr>"]
  by (simp add: sample_inner_loop appended_def)

end
